theory Spec2Isabelle
  imports Main
begin

section \<open>Registry tokens: a shallow embedding of src/token.ts\<close>

text \<open>
  The embedding follows \<^verbatim>\<open>src/token.ts\<close> function by function. JavaScript values are
  modelled as follows: a \<^verbatim>\<open>number\<close> as an unbounded integer (timestamps in whole seconds
  and milliseconds, validity in whole minutes), strings as \<open>string\<close>, an optional
  property as an \<open>option\<close> (\<open>None\<close> is \<^verbatim>\<open>undefined\<close>), a thrown exception as the left
  summand of \<open>js_error + 'a\<close>. Each reading of the clock (\<^verbatim>\<open>Date.now()\<close>) is an explicit
  argument, in milliseconds for \<open>createToken\<close> (which divides by 1000 itself) and already
  in whole seconds (\<^verbatim>\<open>Math.floor(Date.now() / 1000)\<close>) for \<open>verifyPayload\<close>. Output on
  the console is not modelled.
\<close>

subsection \<open>Data\<close>

text \<open>
  Modelled from the spec: the types \<^verbatim>\<open>RegistryTokenCapability\<close> and
  \<^verbatim>\<open>RegistryAuthProtocolTokenPayload\<close> are declared in \<^verbatim>\<open>./auth\<close>, which is not among
  the sources. The spec's data model gives the capability values \<^verbatim>\<open>pull\<close> and
  \<^verbatim>\<open>push\<close> and the payload fields below; \<^verbatim>\<open>account_id\<close>, \<^verbatim>\<open>exp\<close> and \<^verbatim>\<open>aud\<close>
  may be absent.
\<close>

datatype RegistryTokenCapability = Pull | Push

record RegistryAuthProtocolTokenPayload =
  username :: string
  account_id :: "string option"
  capabilities :: "RegistryTokenCapability list"
  iat :: int
  exp :: "int option"
  aud :: "string list option"

text \<open>
  The parts of a Fetch \<^verbatim>\<open>Request\<close> the code reads: its method, its URL (a serialised
  absolute URL) and its headers.
\<close>

record Request =
  "method" :: string
  url :: string
  headers :: "(string \<times> string) list"

text \<open>The value every verification entry point returns.\<close>

record VerifyResult =
  verified :: bool
  payload :: "RegistryAuthProtocolTokenPayload option"

datatype js_error = TypeError | LibraryError string

text \<open>
  The libraries the module imports (\<^verbatim>\<open>@cfworker/base64url\<close>, \<^verbatim>\<open>JSON\<close>,
  \<^verbatim>\<open>@tsndr/cloudflare-worker-jwt\<close>) are parameters of the model: each call either
  throws or returns. The type \<open>'k\<close> is that of a decoded \<^verbatim>\<open>JsonWebKey\<close>, and
  \<open>jwt_verify\<close> gives the truth value of what \<^verbatim>\<open>jwt.verify\<close> resolves to, which is all
  the code reads of it.
\<close>

record 'k platform =
  base64url_decode :: "string \<Rightarrow> js_error + string"
  JSON_parse :: "string \<Rightarrow> js_error + 'k"
  jwt_sign :: "RegistryAuthProtocolTokenPayload \<Rightarrow> 'k \<Rightarrow> js_error + string"
  jwt_verify :: "string \<Rightarrow> 'k \<Rightarrow> js_error + bool"
  jwt_decode :: "string \<Rightarrow> js_error + RegistryAuthProtocolTokenPayload"

text \<open>The calls into the JWT library that a verification makes, in order.\<close>

datatype jwt_call = JwtVerify string | JwtDecode string

record 'k RegistryTokens =
  authmode :: string
  jwtPublicKey :: 'k

subsection \<open>JavaScript built-ins used by the code\<close>

text \<open>\<^verbatim>\<open>s.endsWith(t)\<close>.\<close>

definition endsWith :: "string \<Rightarrow> string \<Rightarrow> bool" where
  "endsWith s t = (length t \<le> length s \<and> drop (length s - length t) s = t)"

text \<open>\<^verbatim>\<open>s.split(sep)\<close> for a separator of one character: never an empty array.\<close>

fun split :: "char \<Rightarrow> string \<Rightarrow> string list" where
  "split sep [] = [[]]"
| "split sep (c # cs) =
     (if c = sep then [] # split sep cs
      else (case split sep cs of
              [] \<Rightarrow> [[c]]
            | seg # segs \<Rightarrow> (c # seg) # segs))"

text \<open>\<^verbatim>\<open>xs[i]\<close>: reading an array out of range gives \<^verbatim>\<open>undefined\<close>, it does not throw.\<close>

definition index :: "'a list \<Rightarrow> nat \<Rightarrow> 'a option" where
  "index xs i = (if i < length xs then Some (xs ! i) else None)"

text \<open>
  \<^verbatim>\<open>xs.includes(v)\<close> on an array of strings, for a \<open>v\<close> that is a string or
  \<^verbatim>\<open>undefined\<close>: \<^verbatim>\<open>undefined\<close> equals no string.
\<close>

definition includes_opt :: "string list \<Rightarrow> string option \<Rightarrow> bool" where
  "includes_opt xs v = (case v of None \<Rightarrow> False | Some s \<Rightarrow> s \<in> set xs)"

text \<open>
  \<^verbatim>\<open>new URL(u).pathname\<close> on a serialised hierarchical URL
  \<^verbatim>\<open>scheme://authority/path?query#fragment\<close>, the form \<^verbatim>\<open>Request.url\<close> has (the
  Fetch API serialises, hence normalises, the URL of every request): the path runs from
  the end of the authority to the first \<^verbatim>\<open>?\<close> or \<^verbatim>\<open>#\<close>, and an empty path reads as
  \<^verbatim>\<open>/\<close>. A string with no scheme or no authority is no such URL, and the constructor
  throws a \<^verbatim>\<open>TypeError\<close> (\<open>None\<close> here).
\<close>

definition url_pathname :: "string \<Rightarrow> string option" where
  "url_pathname u =
     (let scheme = takeWhile (\<lambda>c. c \<notin> set '':/?#'') u;
          rest = dropWhile (\<lambda>c. c \<notin> set '':/?#'') u;
          after = drop 3 rest;
          authority = takeWhile (\<lambda>c. c \<notin> set ''/?#'') after;
          path = takeWhile (\<lambda>c. c \<notin> set ''?#'') (dropWhile (\<lambda>c. c \<notin> set ''/?#'') after)
      in if scheme \<noteq> [] \<and> take 3 rest = ''://'' \<and> authority \<noteq> []
         then Some (if path = [] then ''/'' else path)
         else None)"

subsection \<open>Keys and the constructor\<close>

definition importKeyFromBase64 :: "'k platform \<Rightarrow> string \<Rightarrow> js_error + 'k" where
  "importKeyFromBase64 lib key =
     (case base64url_decode lib key of
        Inl error \<Rightarrow> Inl error
      | Inr json \<Rightarrow> JSON_parse lib json)"

definition newRegistryTokens :: "'k platform \<Rightarrow> string \<Rightarrow> js_error + 'k RegistryTokens" where
  "newRegistryTokens lib publicKeyString =
     (case importKeyFromBase64 lib publicKeyString of
        Inl error \<Rightarrow> Inl error
      | Inr key \<Rightarrow> Inr \<lparr>authmode = ''RegistryTokens'', jwtPublicKey = key\<rparr>)"

subsection \<open>createToken\<close>

text \<open>
  The payload \<open>createToken\<close> builds before signing. The code reads the clock twice:
  \<open>clock1\<close> is the value of \<^verbatim>\<open>Date.now()\<close> in the object literal (for \<^verbatim>\<open>iat\<close>),
  \<open>clock2\<close> its value in the assignment to \<^verbatim>\<open>exp\<close>, both in milliseconds.
\<close>

definition createToken_payload ::
  "RegistryTokenCapability list \<Rightarrow> string list \<Rightarrow> int option \<Rightarrow> string option \<Rightarrow> int \<Rightarrow> int
     \<Rightarrow> RegistryAuthProtocolTokenPayload" where
  "createToken_payload caps namespaces expirationMinutes accountID clock1 clock2 =
     (let tokenPayload =
            \<lparr>username = ''v0'', account_id = accountID, capabilities = caps,
             iat = clock1 div 1000, exp = None, aud = Some namespaces\<rparr>
      in case expirationMinutes of
           None \<Rightarrow> tokenPayload
         | Some minutes \<Rightarrow> tokenPayload\<lparr>exp := Some (clock2 div 1000 + 60 * minutes)\<rparr>)"

definition createToken ::
  "'k platform \<Rightarrow> RegistryTokenCapability list \<Rightarrow> string \<Rightarrow> string list \<Rightarrow> int option
     \<Rightarrow> string option \<Rightarrow> int \<Rightarrow> int \<Rightarrow> js_error + string" where
  "createToken lib caps privateKeyString namespaces expirationMinutes accountID clock1 clock2 =
     (case importKeyFromBase64 lib privateKeyString of
        Inl error \<Rightarrow> Inl error
      | Inr privateKey \<Rightarrow>
          jwt_sign lib (createToken_payload caps namespaces expirationMinutes accountID clock1 clock2)
            privateKey)"

subsection \<open>verifyPayload\<close>

text \<open>
  The two object literals the code returns: \<^verbatim>\<open>{ verified: false, payload: null }\<close> and
  \<^verbatim>\<open>{ verified: true, payload }\<close>.
\<close>

definition denied :: VerifyResult where
  "denied = \<lparr>verified = False, payload = None\<rparr>"

definition granted :: "RegistryAuthProtocolTokenPayload \<Rightarrow> VerifyResult" where
  "granted p = \<lparr>verified = True, payload = Some p\<rparr>"

definition checkIfV2OnlyPath :: "Request \<Rightarrow> bool" where
  "checkIfV2OnlyPath request = endsWith (url request) ''/v2/''"

text \<open>
  The test \<^verbatim>\<open>payload.exp && now >= payload.exp\<close>: the first operand is the number
  itself, and JavaScript reads \<^verbatim>\<open>undefined\<close> and \<^verbatim>\<open>0\<close> as false.
\<close>

definition expired :: "RegistryAuthProtocolTokenPayload \<Rightarrow> int \<Rightarrow> bool" where
  "expired p now = (case exp p of None \<Rightarrow> False | Some e \<Rightarrow> e \<noteq> 0 \<and> now \<ge> e)"

text \<open>
  The \<^verbatim>\<open>switch (request.method)\<close>: \<open>Some r\<close> when a branch returns \<open>r\<close>, \<open>None\<close>
  when it leaves the switch by \<^verbatim>\<open>break\<close>.
\<close>

definition capability_switch ::
  "Request \<Rightarrow> RegistryAuthProtocolTokenPayload \<Rightarrow> VerifyResult option" where
  "capability_switch request p =
     (if method request = ''HEAD'' then
        (if Pull \<notin> set (capabilities p) \<and> Push \<notin> set (capabilities p) then Some denied
         else None)
      else if method request = ''GET'' then
        (if checkIfV2OnlyPath request \<and> length (capabilities p) = 0 then Some denied
         else if checkIfV2OnlyPath request then Some (granted p)
         else if Pull \<notin> set (capabilities p) then Some denied
         else None)
      else if method request \<in> set [''POST'', ''PUT'', ''DELETE'', ''PATCH''] then
        (if Push \<notin> set (capabilities p) then Some denied else None)
      else Some denied)"

text \<open>
  The statements after the switch. \<^verbatim>\<open>payload.aud && ...\<close> tests the array itself:
  \<^verbatim>\<open>undefined\<close> is false, every array (the empty one too) is true.
\<close>

definition namespace_check ::
  "Request \<Rightarrow> RegistryAuthProtocolTokenPayload \<Rightarrow> js_error + VerifyResult" where
  "namespace_check request p =
     (case url_pathname (url request) of
        None \<Rightarrow> Inl TypeError
      | Some pathname \<Rightarrow>
          (let namespace = index (split CHR ''/'' pathname) 2
           in case aud p of
                None \<Rightarrow> Inr (granted p)
              | Some audience \<Rightarrow>
                  if \<not> includes_opt audience namespace then Inr denied
                  else Inr (granted p)))"

definition verifyPayload ::
  "Request \<Rightarrow> RegistryAuthProtocolTokenPayload \<Rightarrow> int \<Rightarrow> js_error + VerifyResult" where
  "verifyPayload request p now =
     (if expired p now then Inr denied
      else case capability_switch request p of
             Some result \<Rightarrow> Inr result
           | None \<Rightarrow> namespace_check request p)"

subsection \<open>verifyToken and checkCredentials\<close>

text \<open>
  The body of the \<^verbatim>\<open>try\<close> block, with the library calls it has made so far: a call
  that throws leaves the block with \<open>Inl\<close>.
\<close>

definition verifyToken_try ::
  "'k platform \<Rightarrow> 'k RegistryTokens \<Rightarrow> int \<Rightarrow> Request \<Rightarrow> string
     \<Rightarrow> (js_error + VerifyResult) \<times> jwt_call list" where
  "verifyToken_try lib this now request token =
     (case jwt_verify lib token (jwtPublicKey this) of
        Inl error \<Rightarrow> (Inl error, [JwtVerify token])
      | Inr ok \<Rightarrow>
          if \<not> ok then (Inr denied, [JwtVerify token])
          else (case jwt_decode lib token of
                  Inl error \<Rightarrow> (Inl error, [JwtVerify token, JwtDecode token])
                | Inr decoded \<Rightarrow>
                    (verifyPayload request decoded now, [JwtVerify token, JwtDecode token])))"

text \<open>
  The \<^verbatim>\<open>catch\<close> clause logs the message of the error that was thrown and returns the
  failure result, whatever the error is.
\<close>

definition verifyToken ::
  "'k platform \<Rightarrow> 'k RegistryTokens \<Rightarrow> int \<Rightarrow> Request \<Rightarrow> string
     \<Rightarrow> VerifyResult \<times> jwt_call list" where
  "verifyToken lib this now request token =
     (case verifyToken_try lib this now request token of
        (Inl error, calls) \<Rightarrow> (denied, calls)
      | (Inr result, calls) \<Rightarrow> (result, calls))"

text \<open>
  \<^verbatim>\<open>stripUsernamePasswordFromHeader\<close> is imported from \<^verbatim>\<open>./auth\<close>, which is not among
  the sources; it is the parameter \<open>strip\<close>. It returns either a result object (one
  with a \<^verbatim>\<open>verified\<close> property, \<open>Inl\<close>) or the pair of user name and password.
\<close>

definition checkCredentials ::
  "(Request \<Rightarrow> VerifyResult + string \<times> string) \<Rightarrow> 'k platform \<Rightarrow> 'k RegistryTokens \<Rightarrow> int
     \<Rightarrow> Request \<Rightarrow> VerifyResult \<times> jwt_call list" where
  "checkCredentials strip lib this now request =
     (case strip request of
        Inl res \<Rightarrow> (res, [])
      | Inr (user, password) \<Rightarrow> verifyToken lib this now request password)"

subsection \<open>The spec's method table\<close>

text \<open>
  Written from the spec's words (section 4.4, step 3), to be compared with the switch of
  \<open>verifyPayload\<close>: the capability each method requires on a request that is not the
  version ping. HEAD needs one of \<^verbatim>\<open>pull\<close> and \<^verbatim>\<open>push\<close>, GET needs \<^verbatim>\<open>pull\<close>, POST, PUT,
  DELETE and PATCH need \<^verbatim>\<open>push\<close>, every other method fails.
\<close>

definition spec_method_table :: "string \<Rightarrow> RegistryTokenCapability list \<Rightarrow> bool" where
  "spec_method_table m caps =
     (if m = ''HEAD'' then Pull \<in> set caps \<or> Push \<in> set caps
      else if m = ''GET'' then Pull \<in> set caps
      else if m = ''POST'' \<or> m = ''PUT'' \<or> m = ''DELETE'' \<or> m = ''PATCH'' then Push \<in> set caps
      else False)"

subsection \<open>Stand-ins for the examples\<close>

text \<open>
  A JWT library for the concrete examples, with keys as strings: it signs the one payload
  \<open>p\<close> under the key \<^verbatim>\<open>private\<close>, accepts the resulting token under the key
  \<^verbatim>\<open>public\<close> and decodes it to \<open>p\<close>.
\<close>

definition stub_platform :: "RegistryAuthProtocolTokenPayload \<Rightarrow> string platform" where
  "stub_platform p =
     \<lparr>base64url_decode = Inr,
      JSON_parse = Inr,
      jwt_sign = (\<lambda>q k. if q = p \<and> k = ''private'' then Inr ''token''
                         else Inl (LibraryError ''sign'')),
      jwt_verify = (\<lambda>t k. Inr (t = ''token'' \<and> k = ''public'')),
      jwt_decode = (\<lambda>t. if t = ''token'' then Inr p else Inl (LibraryError ''decode''))\<rparr>"

text \<open>
  A credential extractor for the concrete examples: the value of the first header is the
  password, and a request without headers is refused.
\<close>

definition stub_strip :: "Request \<Rightarrow> VerifyResult + string \<times> string" where
  "stub_strip request =
     (case headers request of
        [] \<Rightarrow> Inl denied
      | (name, v) # others \<Rightarrow> Inr (''user'', v))"

section \<open>Properties\<close>

subsection \<open>Shared facts\<close>

lemma split_not_Nil: "split sep s \<noteq> []"
  by (induction s) (auto split: list.splits)

lemma verifyPayload_results:
  "verifyPayload request p now = Inr r \<Longrightarrow> r = denied \<or> r = granted p"
  by (auto simp: verifyPayload_def capability_switch_def namespace_check_def Let_def
      split: if_splits option.splits)

lemma authorised_payload_granted:
  assumes "\<forall>m. expirationMinutes = Some m \<longrightarrow> now < clock2 div 1000 + 60 * m"
    and "spec_method_table (method request) caps"
    and "url_pathname (url request) = Some pathname"
    and "index (split CHR ''/'' pathname) 2 = Some namespace"
    and "namespace \<in> set namespaces"
  shows "verifyPayload request
           (createToken_payload caps namespaces expirationMinutes accountID clock1 clock2) now
         = Inr (granted (createToken_payload caps namespaces expirationMinutes accountID clock1 clock2))"
proof -
  let ?p = "createToken_payload caps namespaces expirationMinutes accountID clock1 clock2"
  have fields: "capabilities ?p = caps" "aud ?p = Some namespaces"
    "exp ?p = map_option (\<lambda>m. clock2 div 1000 + 60 * m) expirationMinutes"
    by (cases expirationMinutes; simp add: createToken_payload_def)+
  have fresh: "\<not> expired ?p now"
    using assms(1) by (cases expirationMinutes) (auto simp: expired_def createToken_payload_def)
  have switch: "capability_switch request ?p = None \<or> capability_switch request ?p = Some (granted ?p)"
    using assms(2) by (auto simp: capability_switch_def spec_method_table_def fields split: if_splits)
  have check: "namespace_check request ?p = Inr (granted ?p)"
    using assms(3,4,5) by (simp add: namespace_check_def fields includes_opt_def)
  from fresh switch check show ?thesis
    by (auto simp: verifyPayload_def)
qed

subsection \<open>No exception leaves verifyToken\<close>

text \<open>
  C7. For every library, key, request and token string, \<open>verifyToken\<close> returns a result:
  the result is the decoded payload with \<^verbatim>\<open>verified: true\<close> when the signature check
  returns true, the decoding returns a payload and \<open>verifyPayload\<close> grants it, and it is
  \<^verbatim>\<open>{verified: false, payload: null}\<close> in every other case, a thrown exception of any
  stage included. So the payload is present exactly when \<^verbatim>\<open>verified\<close> is true.
\<close>

theorem verifyToken_never_throws:
  "fst (verifyToken lib this now request token) =
     (case jwt_verify lib token (jwtPublicKey this) of
        Inr True \<Rightarrow>
          (case jwt_decode lib token of
             Inr p \<Rightarrow> if verifyPayload request p now = Inr (granted p) then granted p else denied
           | Inl e \<Rightarrow> denied)
      | _ \<Rightarrow> denied)
   \<and> verified (fst (verifyToken lib this now request token))
       = (payload (fst (verifyToken lib this now request token)) \<noteq> None)"
  by (auto simp: verifyToken_def verifyToken_try_def denied_def granted_def
      split: sum.splits bool.splits dest!: verifyPayload_results)

subsection \<open>The payload createToken builds\<close>

text \<open>
  C8, as the claim states it, fails: \<^verbatim>\<open>iat\<close> and \<^verbatim>\<open>exp\<close> come from two readings of the
  clock. When the first reading is 999 ms and the second 1000 ms, one minute of validity
  gives \<^verbatim>\<open>iat = 0\<close> and \<^verbatim>\<open>exp = 61\<close>, not \<^verbatim>\<open>iat + 60\<close>.
\<close>

theorem createToken_exp_not_iat_based:
  "exp (createToken_payload [Pull] [''teamA''] (Some 1) None 999 1000)
     \<noteq> Some (iat (createToken_payload [Pull] [''teamA''] (Some 1) None 999 1000) + 60 * 1)"
  by (simp add: createToken_payload_def)

text \<open>
  C8, amended. Every payload built by \<open>createToken\<close> has \<^verbatim>\<open>username\<close> equal to
  \<^verbatim>\<open>v0\<close>, \<^verbatim>\<open>iat\<close> equal to the clock (in whole seconds) when the payload object is
  built, \<^verbatim>\<open>aud\<close> equal to the namespaces given, the capabilities and account id given,
  and \<^verbatim>\<open>exp\<close> present if and only if \<^verbatim>\<open>expirationMinutes\<close> was given; \<^verbatim>\<open>exp\<close> is then
  the clock (in whole seconds) when \<^verbatim>\<open>exp\<close> is assigned plus 60 times the minutes,
  which is \<^verbatim>\<open>iat\<close> plus 60 times the minutes whenever the two readings of the clock fall
  in the same second.
\<close>

theorem createToken_payload_fields:
  "username (createToken_payload caps namespaces expirationMinutes accountID clock1 clock2) = ''v0''
   \<and> iat (createToken_payload caps namespaces expirationMinutes accountID clock1 clock2)
       = clock1 div 1000
   \<and> aud (createToken_payload caps namespaces expirationMinutes accountID clock1 clock2)
       = Some namespaces
   \<and> capabilities (createToken_payload caps namespaces expirationMinutes accountID clock1 clock2)
       = caps
   \<and> account_id (createToken_payload caps namespaces expirationMinutes accountID clock1 clock2)
       = accountID
   \<and> (exp (createToken_payload caps namespaces expirationMinutes accountID clock1 clock2) = None)
       = (expirationMinutes = None)
   \<and> exp (createToken_payload caps namespaces expirationMinutes accountID clock1 clock2)
       = map_option (\<lambda>minutes. clock2 div 1000 + 60 * minutes) expirationMinutes
   \<and> (clock1 div 1000 = clock2 div 1000 \<longrightarrow>
        exp (createToken_payload caps namespaces expirationMinutes accountID clock1 clock2)
          = map_option
              (\<lambda>minutes.
                 iat (createToken_payload caps namespaces expirationMinutes accountID clock1 clock2)
                   + 60 * minutes)
              expirationMinutes)"
  by (cases expirationMinutes) (simp_all add: createToken_payload_def)

theorem createToken_payload_fields_witness:
  "(1700000000123::int) div 1000 = 1700000000456 div 1000
   \<and> iat (createToken_payload [Pull] [''teamA''] (Some 30) (Some ''acct'')
            1700000000123 1700000000456) = 1700000000
   \<and> exp (createToken_payload [Pull] [''teamA''] (Some 30) (Some ''acct'')
            1700000000123 1700000000456) = Some (1700000000 + 60 * 30)"
  using createToken_payload_fields
          [of "[Pull]" "[''teamA'']" "Some 30" "Some ''acct''" 1700000000123 1700000000456]
  by simp

subsection \<open>checkCredentials\<close>

text \<open>
  C9. \<open>checkCredentials\<close> first runs the credential extraction. If the extraction returns
  a failure result, that result is returned unchanged and no call into the JWT library is
  made; otherwise the result is that of \<open>verifyToken\<close> on the password of the extracted
  credentials. Every run of \<open>verifyToken\<close> starts with a call of the library's signature
  check on the token it is given, so the empty list of calls shows that the verification
  was not invoked.
\<close>

theorem checkCredentials_extraction_first:
  "(strip request = Inl res \<longrightarrow>
      checkCredentials strip lib this now request = (res, []))
   \<and> (strip request = Inr (user, password) \<longrightarrow>
      checkCredentials strip lib this now request = verifyToken lib this now request password)
   \<and> hd (snd (verifyToken lib this now request token)) = JwtVerify token
   \<and> snd (verifyToken lib this now request token) \<noteq> []"
  by (auto simp: checkCredentials_def verifyToken_def verifyToken_try_def
      split: sum.splits prod.splits)

theorem checkCredentials_extraction_first_witness:
  "stub_strip \<lparr>method = ''GET'', url = ''https://registry.example/v2/teamA/manifest'',
               headers = []\<rparr> = Inl denied
   \<and> checkCredentials stub_strip
        (stub_platform (createToken_payload [Pull] [''teamA''] None None 0 0))
        \<lparr>authmode = ''RegistryTokens'', jwtPublicKey = ''public''\<rparr> 2
        \<lparr>method = ''GET'', url = ''https://registry.example/v2/teamA/manifest'', headers = []\<rparr>
      = (denied, [])
   \<and> stub_strip \<lparr>method = ''GET'', url = ''https://registry.example/v2/teamA/manifest'',
                 headers = [(''Authorization'', ''token'')]\<rparr> = Inr (''user'', ''token'')
   \<and> checkCredentials stub_strip
        (stub_platform (createToken_payload [Pull] [''teamA''] None None 0 0))
        \<lparr>authmode = ''RegistryTokens'', jwtPublicKey = ''public''\<rparr> 2
        \<lparr>method = ''GET'', url = ''https://registry.example/v2/teamA/manifest'',
         headers = [(''Authorization'', ''token'')]\<rparr>
      = verifyToken (stub_platform (createToken_payload [Pull] [''teamA''] None None 0 0))
          \<lparr>authmode = ''RegistryTokens'', jwtPublicKey = ''public''\<rparr> 2
          \<lparr>method = ''GET'', url = ''https://registry.example/v2/teamA/manifest'',
           headers = [(''Authorization'', ''token'')]\<rparr> ''token''"
  using checkCredentials_extraction_first
          [of stub_strip
              "\<lparr>method = ''GET'', url = ''https://registry.example/v2/teamA/manifest'',
                headers = []\<rparr>"
              denied
              "stub_platform (createToken_payload [Pull] [''teamA''] None None 0 0)"
              "\<lparr>authmode = ''RegistryTokens'', jwtPublicKey = ''public''\<rparr>" 2]
        checkCredentials_extraction_first
          [of stub_strip
              "\<lparr>method = ''GET'', url = ''https://registry.example/v2/teamA/manifest'',
                headers = [(''Authorization'', ''token'')]\<rparr>"
              _
              "stub_platform (createToken_payload [Pull] [''teamA''] None None 0 0)"
              "\<lparr>authmode = ''RegistryTokens'', jwtPublicKey = ''public''\<rparr>" 2
              "''user''" "''token''"]
  by (simp add: stub_strip_def)

subsection \<open>Where the code departs from the claims\<close>

text \<open>
  C1. The claim says that an empty \<^verbatim>\<open>aud\<close> list imposes no namespace restriction. The
  code tests \<^verbatim>\<open>payload.aud && !payload.aud.includes(namespace)\<close>, and an empty array is
  true in JavaScript: a token issued for the empty list of namespaces (what the issuing
  script passes when no restriction is asked for) carries \<^verbatim>\<open>aud: []\<close> and is refused by
  the namespace check on a request that passes every other check, while the same token
  without \<^verbatim>\<open>aud\<close> is granted.
\<close>

theorem empty_aud_refuses_request:
  "aud (createToken_payload [Pull, Push] [] None None 0 0) = Some []
   \<and> verifyPayload
        \<lparr>method = ''GET'', url = ''https://registry.example/v2/teamA/manifest'', headers = []\<rparr>
        (createToken_payload [Pull, Push] [] None None 0 0) 100
      = Inr denied
   \<and> verifyPayload
        \<lparr>method = ''GET'', url = ''https://registry.example/v2/teamA/manifest'', headers = []\<rparr>
        ((createToken_payload [Pull, Push] [] None None 0 0)\<lparr>aud := None\<rparr>) 100
      = Inr (granted ((createToken_payload [Pull, Push] [] None None 0 0)\<lparr>aud := None\<rparr>))"
  by (simp add: createToken_payload_def verifyPayload_def expired_def capability_switch_def
      checkIfV2OnlyPath_def endsWith_def namespace_check_def url_pathname_def index_def
      includes_opt_def)

text \<open>
  C2. The claim says that the version-ping branch applies exactly when the path is
  \<^verbatim>\<open>/v2/\<close>. The code tests \<^verbatim>\<open>request.url.endsWith("/v2/")\<close> on the whole URL, query
  string included. A GET of \<^verbatim>\<open>/v2/teamB/manifest?x=/v2/\<close> takes the branch: a token with
  \<^verbatim>\<open>push\<close> only and \<^verbatim>\<open>aud = ["teamA"]\<close> is granted, with neither the \<^verbatim>\<open>pull\<close> check nor
  the namespace check. A GET of \<^verbatim>\<open>/v2/?n=1\<close>, whose path is exactly \<^verbatim>\<open>/v2/\<close>, does not take
  it: the same capabilities are refused for want of \<^verbatim>\<open>pull\<close>.
\<close>

theorem ping_branch_tests_url_suffix:
  "url_pathname ''https://registry.example/v2/teamB/manifest?x=/v2/'' = Some ''/v2/teamB/manifest''
   \<and> verifyPayload
        \<lparr>method = ''GET'', url = ''https://registry.example/v2/teamB/manifest?x=/v2/'',
         headers = []\<rparr>
        \<lparr>username = ''v0'', account_id = None, capabilities = [Push], iat = 0, exp = None,
         aud = Some [''teamA'']\<rparr> 100
      = Inr (granted
          \<lparr>username = ''v0'', account_id = None, capabilities = [Push], iat = 0, exp = None,
           aud = Some [''teamA'']\<rparr>)
   \<and> url_pathname ''https://registry.example/v2/?n=1'' = Some ''/v2/''
   \<and> verifyPayload
        \<lparr>method = ''GET'', url = ''https://registry.example/v2/?n=1'', headers = []\<rparr>
        \<lparr>username = ''v0'', account_id = None, capabilities = [Push], iat = 0, exp = None,
         aud = None\<rparr> 100
      = Inr denied"
  by (simp add: url_pathname_def verifyPayload_def expired_def capability_switch_def
      checkIfV2OnlyPath_def endsWith_def)

text \<open>
  C5. The claim says that a request past the capability check fails exactly when \<^verbatim>\<open>aud\<close>
  is non-empty and the namespace is not a member of it. The namespace is read as the claim
  says (here \<^verbatim>\<open>teamA\<close>, index 2 of the path split at \<^verbatim>\<open>/\<close>), but with an empty \<^verbatim>\<open>aud\<close>
  list a HEAD request that passes the capability check on a path that is not the ping is
  refused all the same: the defect of C1.
\<close>

theorem empty_aud_fails_namespace_check:
  "index (split CHR ''/'' ''/v2/teamA/blobs/sha256:00'') 2 = Some ''teamA''
   \<and> \<not> checkIfV2OnlyPath
         \<lparr>method = ''HEAD'', url = ''https://registry.example/v2/teamA/blobs/sha256:00'',
          headers = []\<rparr>
   \<and> capability_switch
        \<lparr>method = ''HEAD'', url = ''https://registry.example/v2/teamA/blobs/sha256:00'',
         headers = []\<rparr>
        \<lparr>username = ''v0'', account_id = None, capabilities = [Push], iat = 0, exp = None,
         aud = Some []\<rparr> = None
   \<and> verifyPayload
        \<lparr>method = ''HEAD'', url = ''https://registry.example/v2/teamA/blobs/sha256:00'',
         headers = []\<rparr>
        \<lparr>username = ''v0'', account_id = None, capabilities = [Push], iat = 0, exp = None,
         aud = Some []\<rparr> 100
      = Inr denied"
  by (simp add: verifyPayload_def expired_def capability_switch_def checkIfV2OnlyPath_def
      endsWith_def namespace_check_def url_pathname_def index_def includes_opt_def)

text \<open>
  C6. The claim says that a token whose \<^verbatim>\<open>exp\<close> is present fails once the clock has
  reached it. The code tests \<^verbatim>\<open>payload.exp && now >= payload.exp\<close>, and the number 0 is
  false in JavaScript: a payload with \<^verbatim>\<open>exp: 0\<close> is granted at every later time.
\<close>

theorem exp_zero_never_expires:
  "exp \<lparr>username = ''v0'', account_id = None, capabilities = [Pull], iat = 0, exp = Some 0,
        aud = None\<rparr> = Some 0
   \<and> (1700000000::int) \<ge> 0
   \<and> verifyPayload
        \<lparr>method = ''GET'', url = ''https://registry.example/v2/teamA/manifest'', headers = []\<rparr>
        \<lparr>username = ''v0'', account_id = None, capabilities = [Pull], iat = 0, exp = Some 0,
         aud = None\<rparr> 1700000000
      = Inr (granted
          \<lparr>username = ''v0'', account_id = None, capabilities = [Pull], iat = 0, exp = Some 0,
           aud = None\<rparr>)"
  by (simp add: verifyPayload_def expired_def capability_switch_def checkIfV2OnlyPath_def
      endsWith_def namespace_check_def url_pathname_def)

text \<open>
  C3. The claim says that, for every list of namespaces, a token from \<open>createToken\<close>
  verifies against a request it authorises. For the empty list of namespaces the spec
  reads the token as unrestricted, so with \<^verbatim>\<open>pull\<close> and \<^verbatim>\<open>push\<close> it authorises a GET of
  \<^verbatim>\<open>/v2/teamA/manifest\<close>. \<open>createToken\<close> returns a token, the library accepts it under
  the public key and decodes it to the payload that was signed, and \<open>verifyToken\<close> still
  returns the failure result: the defect of C1.
\<close>

theorem roundtrip_refused_for_unrestricted_token:
  "createToken (stub_platform (createToken_payload [Pull, Push] [] None None 0 0))
     [Pull, Push] ''private'' [] None None 0 0 = Inr ''token''
   \<and> jwt_verify (stub_platform (createToken_payload [Pull, Push] [] None None 0 0)) ''token''
       ''public'' = Inr True
   \<and> jwt_decode (stub_platform (createToken_payload [Pull, Push] [] None None 0 0)) ''token''
       = Inr (createToken_payload [Pull, Push] [] None None 0 0)
   \<and> spec_method_table ''GET'' [Pull, Push]
   \<and> fst (verifyToken (stub_platform (createToken_payload [Pull, Push] [] None None 0 0))
           \<lparr>authmode = ''RegistryTokens'', jwtPublicKey = ''public''\<rparr> 100
           \<lparr>method = ''GET'', url = ''https://registry.example/v2/teamA/manifest'',
            headers = []\<rparr>
           ''token'')
       = denied"
  by (simp add: createToken_def importKeyFromBase64_def stub_platform_def verifyToken_def
      verifyToken_try_def createToken_payload_def verifyPayload_def expired_def
      capability_switch_def checkIfV2OnlyPath_def endsWith_def namespace_check_def
      url_pathname_def index_def includes_opt_def spec_method_table_def)

text \<open>
  C4. The claim says that a GET on a path other than the ping path requires \<^verbatim>\<open>pull\<close>. A
  GET of \<^verbatim>\<open>/v2/teamB/manifest?x=/v2/\<close> is on the path \<^verbatim>\<open>/v2/teamB/manifest\<close>, the spec's
  method table refuses a token with \<^verbatim>\<open>push\<close> only, and the code grants it: the request
  leaves the switch through the version-ping branch, the defect of C2. Without the query
  string the same request is refused.
\<close>

theorem get_without_pull_granted:
  "url_pathname ''https://registry.example/v2/teamB/manifest?x=/v2/'' = Some ''/v2/teamB/manifest''
   \<and> \<not> spec_method_table ''GET'' [Push]
   \<and> verifyPayload
        \<lparr>method = ''GET'', url = ''https://registry.example/v2/teamB/manifest?x=/v2/'',
         headers = []\<rparr>
        \<lparr>username = ''v0'', account_id = None, capabilities = [Push], iat = 0, exp = None,
         aud = None\<rparr> 100
      = Inr (granted
          \<lparr>username = ''v0'', account_id = None, capabilities = [Push], iat = 0, exp = None,
           aud = None\<rparr>)
   \<and> verifyPayload
        \<lparr>method = ''GET'', url = ''https://registry.example/v2/teamB/manifest'',
         headers = []\<rparr>
        \<lparr>username = ''v0'', account_id = None, capabilities = [Push], iat = 0, exp = None,
         aud = None\<rparr> 100
      = Inr denied"
  by (simp add: url_pathname_def spec_method_table_def verifyPayload_def expired_def
      capability_switch_def checkIfV2OnlyPath_def endsWith_def)

text \<open>
  C10. The claim says that a payload with a non-empty \<^verbatim>\<open>aud\<close> fails every request whose
  path has fewer than three segments. The path \<^verbatim>\<open>/v2\<close> has two segments, and yet a GET of
  \<^verbatim>\<open>https://registry.example/v2?x=/v2/\<close> with a payload whose \<^verbatim>\<open>aud\<close> is
  \<^verbatim>\<open>["teamA"]\<close> is granted: the URL ends in \<^verbatim>\<open>/v2/\<close>, so the request is returned by the
  version-ping branch of the switch and never reaches the namespace check, the defect of
  C2.
\<close>

theorem missing_namespace_granted_by_ping:
  "url_pathname ''https://registry.example/v2?x=/v2/'' = Some ''/v2''
   \<and> length (split CHR ''/'' ''/v2'') = 2
   \<and> verifyPayload
        \<lparr>method = ''GET'', url = ''https://registry.example/v2?x=/v2/'', headers = []\<rparr>
        \<lparr>username = ''v0'', account_id = None, capabilities = [Pull], iat = 0, exp = None,
         aud = Some [''teamA'']\<rparr> 100
      = Inr (granted
          \<lparr>username = ''v0'', account_id = None, capabilities = [Pull], iat = 0, exp = None,
           aud = Some [''teamA'']\<rparr>)"
  by (simp add: url_pathname_def verifyPayload_def expired_def capability_switch_def
      checkIfV2OnlyPath_def endsWith_def)

subsection \<open>What the checks do on the remaining inputs\<close>

text \<open>
  Expiry. A payload without \<^verbatim>\<open>exp\<close> never fails the expiry check; one whose \<^verbatim>\<open>exp\<close> is
  not 0 is refused by \<open>verifyPayload\<close> from the second \<^verbatim>\<open>exp\<close> on, and passes the expiry
  check at every earlier time.
\<close>

theorem expiry_check:
  "(exp p = None \<longrightarrow> \<not> expired p now)
   \<and> (exp p = Some e \<and> e \<noteq> 0 \<and> now \<ge> e \<longrightarrow> verifyPayload request p now = Inr denied)
   \<and> (exp p = Some e \<and> now < e \<longrightarrow> \<not> expired p now)"
  by (auto simp: expired_def verifyPayload_def)

theorem expiry_check_witness:
  "verifyPayload
     \<lparr>method = ''GET'', url = ''https://registry.example/v2/teamA/manifest'', headers = []\<rparr>
     \<lparr>username = ''v0'', account_id = None, capabilities = [Pull], iat = 100, exp = Some 101,
      aud = None\<rparr> 101
     = Inr denied
   \<and> \<not> expired
        \<lparr>username = ''v0'', account_id = None, capabilities = [Pull], iat = 100, exp = Some 101,
         aud = None\<rparr> 100
   \<and> \<not> expired
        \<lparr>username = ''v0'', account_id = None, capabilities = [Pull], iat = 100, exp = None,
         aud = None\<rparr> 100"
  using expiry_check
          [of "\<lparr>username = ''v0'', account_id = None, capabilities = [Pull], iat = 100,
                exp = Some 101, aud = None\<rparr>"
              101 101
              "\<lparr>method = ''GET'', url = ''https://registry.example/v2/teamA/manifest'',
                headers = []\<rparr>"]
        expiry_check
          [of "\<lparr>username = ''v0'', account_id = None, capabilities = [Pull], iat = 100,
                exp = Some 101, aud = None\<rparr>"
              100 101]
        expiry_check
          [of "\<lparr>username = ''v0'', account_id = None, capabilities = [Pull], iat = 100,
                exp = None, aud = None\<rparr>"
              100]
  by simp

text \<open>
  Namespace enforcement. On a request that passes the expiry check and leaves the switch
  by \<^verbatim>\<open>break\<close>, a payload whose \<^verbatim>\<open>aud\<close> is present is granted exactly when the segment at
  index 2 of the path is a member of \<^verbatim>\<open>aud\<close>, and a payload without \<^verbatim>\<open>aud\<close> is granted
  whatever the namespace is.
\<close>

theorem namespace_enforcement:
  assumes "url_pathname (url request) = Some pathname"
    and "\<not> expired p now"
    and "capability_switch request p = None"
  shows "verifyPayload request p now =
           Inr (case aud p of
                  None \<Rightarrow> granted p
                | Some audience \<Rightarrow>
                    if includes_opt audience (index (split CHR ''/'' pathname) 2) then granted p
                    else denied)"
  using assms
  by (simp add: verifyPayload_def namespace_check_def split: option.splits)

theorem namespace_enforcement_witness:
  "verifyPayload
     \<lparr>method = ''GET'', url = ''https://registry.example/v2/teamA/manifest'', headers = []\<rparr>
     \<lparr>username = ''v0'', account_id = None, capabilities = [Pull], iat = 0, exp = None,
      aud = Some [''teamA'']\<rparr> 100
     = Inr (granted
         \<lparr>username = ''v0'', account_id = None, capabilities = [Pull], iat = 0, exp = None,
          aud = Some [''teamA'']\<rparr>)
   \<and> verifyPayload
       \<lparr>method = ''GET'', url = ''https://registry.example/v2/teamB/manifest'', headers = []\<rparr>
       \<lparr>username = ''v0'', account_id = None, capabilities = [Pull], iat = 0, exp = None,
        aud = Some [''teamA'']\<rparr> 100
     = Inr denied"
proof -
  let ?p = "\<lparr>username = ''v0'', account_id = None, capabilities = [Pull], iat = 0, exp = None,
             aud = Some [''teamA'']\<rparr>"
  let ?a = "\<lparr>method = ''GET'', url = ''https://registry.example/v2/teamA/manifest'',
              headers = []\<rparr>"
  let ?b = "\<lparr>method = ''GET'', url = ''https://registry.example/v2/teamB/manifest'',
              headers = []\<rparr>"
  have path_a: "url_pathname (url ?a) = Some ''/v2/teamA/manifest''"
    and path_b: "url_pathname (url ?b) = Some ''/v2/teamB/manifest''"
    by (simp_all add: url_pathname_def)
  have fresh: "\<not> expired ?p 100"
    by (simp add: expired_def)
  have break_a: "capability_switch ?a ?p = None" and break_b: "capability_switch ?b ?p = None"
    by (simp_all add: capability_switch_def checkIfV2OnlyPath_def endsWith_def)
  from namespace_enforcement [OF path_a fresh break_a]
       namespace_enforcement [OF path_b fresh break_b]
  show ?thesis
    by (simp add: index_def includes_opt_def)
qed

text \<open>
  Version ping. On a GET whose URL ends in \<^verbatim>\<open>/v2/\<close>, an unexpired token is granted when
  it has a capability and refused when it has none, whatever \<^verbatim>\<open>aud\<close> and the path are.
\<close>

theorem version_ping:
  assumes "method request = ''GET''"
    and "checkIfV2OnlyPath request"
    and "\<not> expired p now"
  shows "verifyPayload request p now = Inr (if capabilities p = [] then denied else granted p)"
  using assms
  by (simp add: verifyPayload_def capability_switch_def)

theorem version_ping_witness:
  "verifyPayload
     \<lparr>method = ''GET'', url = ''https://registry.example/v2/'', headers = []\<rparr>
     \<lparr>username = ''v0'', account_id = None, capabilities = [Push], iat = 0, exp = None,
      aud = Some [''teamA'']\<rparr> 100
     = Inr (granted
         \<lparr>username = ''v0'', account_id = None, capabilities = [Push], iat = 0, exp = None,
          aud = Some [''teamA'']\<rparr>)
   \<and> verifyPayload
       \<lparr>method = ''GET'', url = ''https://registry.example/v2/'', headers = []\<rparr>
       \<lparr>username = ''v0'', account_id = None, capabilities = [], iat = 0, exp = None,
        aud = Some [''teamA'']\<rparr> 100
     = Inr denied"
proof -
  let ?request = "\<lparr>method = ''GET'', url = ''https://registry.example/v2/'', headers = []\<rparr>"
  let ?p = "\<lparr>username = ''v0'', account_id = None, capabilities = [Push], iat = 0, exp = None,
             aud = Some [''teamA'']\<rparr>"
  let ?q = "\<lparr>username = ''v0'', account_id = None, capabilities = [], iat = 0, exp = None,
             aud = Some [''teamA'']\<rparr>"
  have get: "method ?request = ''GET''"
    by simp
  have ping: "checkIfV2OnlyPath ?request"
    by (simp add: checkIfV2OnlyPath_def endsWith_def)
  have fresh_p: "\<not> expired ?p 100" and fresh_q: "\<not> expired ?q 100"
    by (simp_all add: expired_def)
  from version_ping [OF get ping fresh_p] version_ping [OF get ping fresh_q]
  show ?thesis
    by simp
qed

text \<open>
  Method table. For every method other than GET and every payload, \<open>verifyPayload\<close>
  refuses exactly when the token is expired or the spec's method table is not met, and
  otherwise goes on to the namespace check. In particular a method outside HEAD, GET,
  POST, PUT, DELETE and PATCH is refused whatever the capabilities are.
\<close>

theorem method_table_other_than_get:
  assumes "method request \<noteq> ''GET''"
  shows "verifyPayload request p now =
           (if expired p now \<or> \<not> spec_method_table (method request) (capabilities p)
            then Inr denied else namespace_check request p)"
  using assms
  by (auto simp: verifyPayload_def capability_switch_def spec_method_table_def)

theorem method_table_other_than_get_witness:
  "method \<lparr>method = ''OPTIONS'', url = ''https://registry.example/v2/teamA/manifest'',
            headers = []\<rparr> \<noteq> ''GET''
   \<and> verifyPayload
        \<lparr>method = ''OPTIONS'', url = ''https://registry.example/v2/teamA/manifest'',
         headers = []\<rparr>
        \<lparr>username = ''v0'', account_id = None, capabilities = [Pull, Push], iat = 0,
         exp = None, aud = None\<rparr> 100
      = Inr denied"
proof -
  let ?request = "\<lparr>method = ''OPTIONS'', url = ''https://registry.example/v2/teamA/manifest'',
                    headers = []\<rparr>"
  have other: "method ?request \<noteq> ''GET''"
    by simp
  show ?thesis
    using other method_table_other_than_get [OF other]
    by (simp add: spec_method_table_def)
qed

text \<open>
  Round trip. Let \<open>createToken\<close> return a token, and let the key pair match: whatever
  payload the library signed into that token under the private key, it accepts the token
  under the verifier's public key and decodes it to that payload. If the token is
  verified before its expiry, on a request whose method the capabilities meet in the
  spec's method table and whose namespace (index 2 of the path) is one of the namespaces
  given, then \<open>verifyToken\<close> returns \<^verbatim>\<open>verified: true\<close> with a payload whose
  capabilities, \<^verbatim>\<open>aud\<close> and \<^verbatim>\<open>account_id\<close> are the ones given to \<open>createToken\<close>.
\<close>

theorem roundtrip_for_listed_namespace:
  assumes created: "createToken lib caps privateKeyString namespaces expirationMinutes accountID
             clock1 clock2 = Inr token"
    and pair: "\<forall>privateKey q. importKeyFromBase64 lib privateKeyString = Inr privateKey
                  \<and> jwt_sign lib q privateKey = Inr token
                \<longrightarrow> jwt_verify lib token (jwtPublicKey this) = Inr True
                    \<and> jwt_decode lib token = Inr q"
    and "\<forall>m. expirationMinutes = Some m \<longrightarrow> now < clock2 div 1000 + 60 * m"
    and "spec_method_table (method request) caps"
    and "url_pathname (url request) = Some pathname"
    and "index (split CHR ''/'' pathname) 2 = Some namespace"
    and "namespace \<in> set namespaces"
  shows "\<exists>p. fst (verifyToken lib this now request token) = \<lparr>verified = True, payload = Some p\<rparr>
             \<and> capabilities p = caps \<and> aud p = Some namespaces \<and> account_id p = accountID"
proof -
  let ?p = "createToken_payload caps namespaces expirationMinutes accountID clock1 clock2"
  from created obtain privateKey
    where key: "importKeyFromBase64 lib privateKeyString = Inr privateKey"
      and signed: "jwt_sign lib ?p privateKey = Inr token"
    by (auto simp: createToken_def split: sum.splits)
  with pair have accepted: "jwt_verify lib token (jwtPublicKey this) = Inr True"
    and decoded: "jwt_decode lib token = Inr ?p"
    by blast+
  have "verifyPayload request ?p now = Inr (granted ?p)"
    using assms(3-7) by (rule authorised_payload_granted)
  with accepted decoded have "fst (verifyToken lib this now request token) = granted ?p"
    by (simp add: verifyToken_def verifyToken_try_def)
  moreover have "capabilities ?p = caps \<and> aud ?p = Some namespaces \<and> account_id ?p = accountID"
    by (cases expirationMinutes) (simp_all add: createToken_payload_def)
  ultimately show ?thesis
    by (auto simp: granted_def)
qed

theorem roundtrip_for_listed_namespace_witness:
  "createToken
     (stub_platform (createToken_payload [Pull] [''teamA''] (Some 30) (Some ''acct'') 1000 1000))
     [Pull] ''private'' [''teamA''] (Some 30) (Some ''acct'') 1000 1000 = Inr ''token''
   \<and> (\<exists>p. fst (verifyToken
                 (stub_platform
                    (createToken_payload [Pull] [''teamA''] (Some 30) (Some ''acct'') 1000 1000))
                 \<lparr>authmode = ''RegistryTokens'', jwtPublicKey = ''public''\<rparr> 2
                 \<lparr>method = ''GET'', url = ''https://registry.example/v2/teamA/manifest'',
                  headers = []\<rparr>
                 ''token'')
              = \<lparr>verified = True, payload = Some p\<rparr>
            \<and> capabilities p = [Pull] \<and> aud p = Some [''teamA'']
            \<and> account_id p = Some ''acct'')"
proof -
  let ?p = "createToken_payload [Pull] [''teamA''] (Some 30) (Some ''acct'') 1000 1000"
  let ?tokens = "\<lparr>authmode = ''RegistryTokens'', jwtPublicKey = ''public''\<rparr>"
  let ?request = "\<lparr>method = ''GET'', url = ''https://registry.example/v2/teamA/manifest'',
                    headers = []\<rparr>"
  have created: "createToken (stub_platform ?p) [Pull] ''private'' [''teamA''] (Some 30)
                   (Some ''acct'') 1000 1000 = Inr ''token''"
    by (simp add: createToken_def importKeyFromBase64_def stub_platform_def)
  have pair: "\<forall>privateKey q. importKeyFromBase64 (stub_platform ?p) ''private'' = Inr privateKey
                  \<and> jwt_sign (stub_platform ?p) q privateKey = Inr ''token''
                \<longrightarrow> jwt_verify (stub_platform ?p) ''token'' (jwtPublicKey ?tokens) = Inr True
                    \<and> jwt_decode (stub_platform ?p) ''token'' = Inr q"
    by (simp add: importKeyFromBase64_def stub_platform_def)
  have fresh: "\<forall>m. Some (30::int) = Some m \<longrightarrow> (2::int) < 1000 div 1000 + 60 * m"
    by simp
  have table: "spec_method_table (method ?request) [Pull]"
    by (simp add: spec_method_table_def)
  have path: "url_pathname (url ?request) = Some ''/v2/teamA/manifest''"
    by (simp add: url_pathname_def)
  have namespace: "index (split CHR ''/'' ''/v2/teamA/manifest'') 2 = Some ''teamA''"
    by (simp add: index_def)
  have listed: "''teamA'' \<in> set [''teamA'']"
    by simp
  from roundtrip_for_listed_namespace [OF created pair fresh table path namespace listed] created
  show ?thesis
    by simp
qed

text \<open>
  A path without a namespace segment. For every request whose URL path has fewer than
  three segments, the namespace read at index 2 is absent (\<^verbatim>\<open>undefined\<close>),
  \<open>verifyPayload\<close> still returns a result (reading out of range is no error), the
  namespace check refuses every payload whose \<^verbatim>\<open>aud\<close> is present and grants the
  others, and so every such request that leaves the switch by \<^verbatim>\<open>break\<close> is refused
  when \<^verbatim>\<open>aud\<close> is present.
\<close>

theorem missing_namespace_refused:
  assumes "url_pathname (url request) = Some pathname"
    and "length (split CHR ''/'' pathname) < 3"
  shows "index (split CHR ''/'' pathname) 2 = None
         \<and> (\<exists>r. verifyPayload request p now = Inr r)
         \<and> namespace_check request p = Inr (if aud p = None then granted p else denied)
         \<and> (aud p \<noteq> None \<and> capability_switch request p = None \<longrightarrow>
              verifyPayload request p now = Inr denied)"
proof -
  from assms(2) have no_namespace: "index (split CHR ''/'' pathname) 2 = None"
    by (simp add: index_def)
  with assms(1) have check: "namespace_check request p
                               = Inr (if aud p = None then granted p else denied)"
    by (auto simp: namespace_check_def includes_opt_def split: option.splits)
  have returns: "\<exists>r. verifyPayload request p now = Inr r"
    using check by (simp add: verifyPayload_def split: option.splits)
  have refused: "verifyPayload request p now = Inr denied"
    if "aud p \<noteq> None" and "capability_switch request p = None"
    using that check by (auto simp: verifyPayload_def)
  from no_namespace returns check refused show ?thesis
    by blast
qed

theorem missing_namespace_refused_witness:
  "url_pathname ''https://registry.example/v2'' = Some ''/v2''
   \<and> length (split CHR ''/'' ''/v2'') < 3
   \<and> index (split CHR ''/'' ''/v2'') 2 = None
   \<and> verifyPayload
        \<lparr>method = ''GET'', url = ''https://registry.example/v2'', headers = []\<rparr>
        \<lparr>username = ''v0'', account_id = None, capabilities = [Pull], iat = 0, exp = None,
         aud = Some [''teamA'']\<rparr> 100
      = Inr denied"
proof -
  let ?request = "\<lparr>method = ''GET'', url = ''https://registry.example/v2'', headers = []\<rparr>"
  let ?p = "\<lparr>username = ''v0'', account_id = None, capabilities = [Pull], iat = 0, exp = None,
             aud = Some [''teamA'']\<rparr>"
  have path: "url_pathname (url ?request) = Some ''/v2''"
    by (simp add: url_pathname_def)
  have short: "length (split CHR ''/'' ''/v2'') < 3"
    by simp
  have reaches: "capability_switch ?request ?p = None"
    by (simp add: capability_switch_def checkIfV2OnlyPath_def endsWith_def)
  from missing_namespace_refused [OF path short, of ?p 100] path short reaches show ?thesis
    by simp
qed

end
